theory Spec2Isabelle
  imports Complex_Main "HOL-Library.Multiset"
begin

section \<open>Maintenance scheduling engine of the anomaly tracker\<close>

text \<open>
  The planning page and the anomaly views are TypeScript. A JavaScript \<open>number\<close> is
  modelled as a \<^typ>\<open>real\<close> (no rounding, no \<open>NaN\<close>, no infinities); an optional
  field (\<open>undefined\<close> or \<open>null\<close>) is an \<^typ>\<open>'a option\<close>; a string is a
  \<^typ>\<open>string\<close>. The criticality level of an anomaly is kept as the string the
  source compares and indexes with.
\<close>

subsection \<open>Data model\<close>

record anomaly =
  anomaly_id :: string
  status :: string
  criticalityLevel :: string
  equipmentId :: "string option"
  maintenanceWindowId :: "string option"
  fiabiliteIntegriteScore :: "real option"
  disponibiliteScore :: "real option"
  processSafetyScore :: "real option"
  userFiabiliteIntegriteScore :: "real option"
  userDisponibiliteScore :: "real option"
  userProcessSafetyScore :: "real option"

record actionPlan =
  anomalyId :: string
  totalDurationDays :: real

record maintenanceWindow =
  window_id :: string
  window_type :: string
  durationDays :: real
  startDate :: real
  window_status :: string
  autoCreated :: bool

subsection \<open>JavaScript operators\<close>

text \<open>\<open>x ?? d\<close>: the left operand unless it is \<open>null\<close> or \<open>undefined\<close>.\<close>

fun nullish :: "'a option \<Rightarrow> 'a \<Rightarrow> 'a" where
  "nullish (Some v) d = v"
| "nullish None d = d"

text \<open>\<open>x || d\<close> on numbers: the left operand unless it is falsy, that is \<open>0\<close>
  (or absent).\<close>

fun or_default :: "real option \<Rightarrow> real \<Rightarrow> real" where
  "or_default (Some v) d = (if v = 0 then d else v)"
| "or_default None d = d"

text \<open>Truthiness of an optional string: present and not empty.\<close>

fun truthy :: "string option \<Rightarrow> bool" where
  "truthy (Some s) = (s \<noteq> [])"
| "truthy None = False"

subsection \<open>Criticality level of an anomaly (AnomalyTable, dashboard KPIs)\<close>

definition fiabiliteIntegriteScore_of :: "anomaly \<Rightarrow> real" where
  "fiabiliteIntegriteScore_of a =
     nullish (userFiabiliteIntegriteScore a) (nullish (fiabiliteIntegriteScore a) 0)"

definition disponibiliteScore_of :: "anomaly \<Rightarrow> real" where
  "disponibiliteScore_of a =
     nullish (userDisponibiliteScore a) (nullish (disponibiliteScore a) 0)"

definition processSafetyScore_of :: "anomaly \<Rightarrow> real" where
  "processSafetyScore_of a =
     nullish (userProcessSafetyScore a) (nullish (processSafetyScore a) 0)"

definition totalScore :: "anomaly \<Rightarrow> real" where
  "totalScore a =
     fiabiliteIntegriteScore_of a + disponibiliteScore_of a + processSafetyScore_of a"

definition calculateCriticalityLevel :: "anomaly \<Rightarrow> string" where
  "calculateCriticalityLevel a =
     (if totalScore a \<ge> 9 then ''critical''
      else if totalScore a \<ge> 7 then ''high''
      else if totalScore a \<ge> 3 then ''normal''
      else ''low'')"

text \<open>An anomaly with the given six scores, for concrete evaluations.\<close>

definition scored :: "real option \<Rightarrow> real option \<Rightarrow> real option \<Rightarrow>
    real option \<Rightarrow> real option \<Rightarrow> real option \<Rightarrow> anomaly" where
  "scored uf ud up f d p =
     \<lparr>anomaly_id = ''a'', status = ''new'', criticalityLevel = ''low'',
      equipmentId = None, maintenanceWindowId = None,
      fiabiliteIntegriteScore = f, disponibiliteScore = d, processSafetyScore = p,
      userFiabiliteIntegriteScore = uf, userDisponibiliteScore = ud,
      userProcessSafetyScore = up\<rparr>"

subsection \<open>Planning page: scoring, window analysis, recommendations\<close>

text \<open>
  \<open>calculateOptimalScheduling\<close> of the planning page maps every treated anomaly to a
  scored copy, sorts the copies, and analyses every maintenance window. The two map
  bodies are the functions \<open>scoreAnomaly\<close> and \<open>analyzeWindow\<close> below; the local
  constants of the source keep their names.
\<close>

record scoredAnomaly =
  base :: anomaly
  urgencyScore :: real
  processingTime :: real
  efficiency :: real
  plan :: "actionPlan option"

record windowAnalysis =
  window :: maintenanceWindow
  assignedAnomalies :: "anomaly list"
  utilization :: real
  capacity :: real
  totalWorkload :: real
  balanceScore :: real
  efficiencyScore :: real
  overallScore :: real

text \<open>A recommendation carries its \<open>type\<close> and the number interpolated into its
  description; the fixed French title, description text and action are left out.\<close>

record recommendation =
  rtype :: string
  rcount :: nat

record schedulingResult =
  sortedAnomalies :: "scoredAnomaly list"
  windowAnalyses :: "windowAnalysis list"
  recommendations :: "recommendation list"

text \<open>The weight table is an object literal indexed by the level, with \<open>|| 1\<close> for a
  key it does not have.\<close>

definition weightTable :: "(string \<times> real) list" where
  "weightTable = [(''critical'', 10), (''high'', 7), (''medium'', 4), (''low'', 1)]"

definition criticalityWeight :: "string \<Rightarrow> real" where
  "criticalityWeight level = or_default (map_of weightTable level) 1"

definition equipmentFactor :: "anomaly \<Rightarrow> real" where
  "equipmentFactor a = (if truthy (equipmentId a) then 12 / 10 else 1)"

definition findPlan :: "actionPlan list \<Rightarrow> anomaly \<Rightarrow> actionPlan option" where
  "findPlan actionPlans a = find (\<lambda>ap. anomalyId ap = anomaly_id a) actionPlans"

definition planDuration :: "actionPlan list \<Rightarrow> anomaly \<Rightarrow> real" where
  "planDuration actionPlans a =
     or_default (map_option totalDurationDays (findPlan actionPlans a)) 1"

definition scoreAnomaly :: "actionPlan list \<Rightarrow> anomaly \<Rightarrow> scoredAnomaly" where
  "scoreAnomaly actionPlans a =
     (let us = criticalityWeight (criticalityLevel a) * equipmentFactor a;
          pt = planDuration actionPlans a
      in \<lparr>base = a, urgencyScore = us, processingTime = pt,
          efficiency = us / pt, plan = findPlan actionPlans a\<rparr>)"

text \<open>\<open>criticalityBalance\<close> is an object used as a counter per level; its keys are kept
  in insertion order.\<close>

fun count_up :: "(string \<times> nat) list \<Rightarrow> string \<Rightarrow> (string \<times> nat) list" where
  "count_up [] k = [(k, 1)]"
| "count_up ((k', n) # kvs) k =
     (if k' = k then (k', n + 1) # kvs else (k', n) # count_up kvs k)"

definition criticalityBalance :: "anomaly list \<Rightarrow> (string \<times> nat) list" where
  "criticalityBalance assigned =
     foldl (\<lambda>acc a. count_up acc (criticalityLevel a)) [] assigned"

text \<open>
  \<open>x / y\<close> of the source. A quotient by zero is \<open>Infinity\<close> or \<open>NaN\<close> there, which
  is no real number: it is \<open>None\<close> here, so that a division by zero shows in the result
  of whatever performs it.
\<close>

definition js_divide :: "real \<Rightarrow> real \<Rightarrow> real option" where
  "js_divide x y = (if y = 0 then None else Some (x / y))"

text \<open>\<open>capacity > 0 ? (totalWorkload / capacity) * 100 : 0\<close>, with the division it makes.\<close>

definition utilizationOf :: "real \<Rightarrow> real \<Rightarrow> real option" where
  "utilizationOf workload cap =
     (if cap > 0 then map_option (\<lambda>q. q * 100) (js_divide workload cap) else Some 0)"

definition analyzeWindow ::
    "anomaly list \<Rightarrow> actionPlan list \<Rightarrow> maintenanceWindow \<Rightarrow> windowAnalysis" where
  "analyzeWindow treatedAnomalies actionPlans w =
     (let assigned = filter (\<lambda>a. maintenanceWindowId a = Some (window_id w)) treatedAnomalies;
          workload = foldl (\<lambda>sum a. sum + planDuration actionPlans a) 0 assigned;
          cap = durationDays w;
          util = the (utilizationOf workload cap);
          bal = real (length (map fst (criticalityBalance assigned))) * 10;
          eff = max 0 (100 - \<bar>85 - util\<bar>)
      in \<lparr>window = w, assignedAnomalies = assigned, utilization = util, capacity = cap,
          totalWorkload = workload, balanceScore = bal, efficiencyScore = eff,
          overallScore = (bal + eff) / 2\<rparr>)"

definition generateRecommendations ::
    "scoredAnomaly list \<Rightarrow> windowAnalysis list \<Rightarrow> recommendation list" where
  "generateRecommendations anomalies windows =
     (let overloadedWindows = filter (\<lambda>w. utilization w > 100) windows;
          underutilizedWindows = filter (\<lambda>w. utilization w < 50 \<and> utilization w > 0) windows;
          unscheduledCritical =
            filter (\<lambda>a. \<not> truthy (maintenanceWindowId (base a)) \<and>
                         criticalityLevel (base a) = ''critical'') anomalies
      in (if length overloadedWindows > 0
          then [\<lparr>rtype = ''warning'', rcount = length overloadedWindows\<rparr>] else [])
       @ (if length underutilizedWindows > 0
          then [\<lparr>rtype = ''info'', rcount = length underutilizedWindows\<rparr>] else [])
       @ (if length unscheduledCritical > 0
          then [\<lparr>rtype = ''error'', rcount = length unscheduledCritical\<rparr>] else []))"

text \<open>\<open>Array.prototype.sort\<close> with the comparator \<open>b.efficiency - a.efficiency\<close>: a
  stable sort (ECMAScript 2019), here the insertion sort of the library on the negated
  key.\<close>

definition sortByEfficiency :: "scoredAnomaly list \<Rightarrow> scoredAnomaly list" where
  "sortByEfficiency xs = sort_key (\<lambda>s. - efficiency s) xs"

definition calculateOptimalScheduling ::
    "anomaly list \<Rightarrow> maintenanceWindow list \<Rightarrow> actionPlan list \<Rightarrow> schedulingResult" where
  "calculateOptimalScheduling treatedAnomalies maintenanceWindows actionPlans =
     (let sorted = sortByEfficiency (map (scoreAnomaly actionPlans) treatedAnomalies);
          analysis = map (analyzeWindow treatedAnomalies actionPlans) maintenanceWindows
      in \<lparr>sortedAnomalies = sorted, windowAnalyses = analysis,
          recommendations = generateRecommendations sorted analysis\<rparr>)"

subsection \<open>Planning page: automatic scheduling of treated anomalies\<close>

text \<open>The data context the page reads and updates.\<close>

record dataContext =
  anomalies :: "anomaly list"
  maintenanceWindows :: "maintenanceWindow list"
  actionPlans :: "actionPlan list"

record assignment =
  asg_anomalyId :: string
  asg_windowId :: string

text \<open>What the planning engine answers; the page tests both fields for presence.\<close>

record scheduleResults =
  assignments :: "assignment list option"
  unassigned :: "string list option"

text \<open>What a run of the handler leaves behind: the data context and the three toasts
  (the number of scheduled anomalies, the number of anomalies needing a new window, the
  failure message).\<close>

record handlerResult =
  dataAfter :: dataContext
  scheduledToast :: "nat option"
  unassignedToast :: "nat option"
  errorToast :: bool

definition treatedAnomalies :: "dataContext \<Rightarrow> anomaly list" where
  "treatedAnomalies ctx = filter (\<lambda>a. status a = ''treated'') (anomalies ctx)"

definition unscheduledTreatedAnomalies :: "dataContext \<Rightarrow> anomaly list" where
  "unscheduledTreatedAnomalies ctx =
     filter (\<lambda>a. \<not> truthy (maintenanceWindowId a)) (treatedAnomalies ctx)"

text \<open>\<open>now\<close> is the value of \<open>new Date()\<close> when the page filters the windows.\<close>

definition availableWindows :: "real \<Rightarrow> dataContext \<Rightarrow> maintenanceWindow list" where
  "availableWindows now ctx =
     filter (\<lambda>w. window_status w = ''planned'' \<and> startDate w > now) (maintenanceWindows ctx)"

text \<open>Modelled from the spec: \<open>updateAnomaly\<close> of the data context
  (\<open>contexts/DataContext\<close>), which the handler calls with an anomaly identifier and a
  new window reference; the anomaly with that identifier gets the reference.\<close>

definition updateAnomaly :: "dataContext \<Rightarrow> string \<Rightarrow> string option \<Rightarrow> dataContext" where
  "updateAnomaly ctx i wid =
     ctx\<lparr>anomalies :=
           map (\<lambda>a. if anomaly_id a = i then a\<lparr>maintenanceWindowId := wid\<rparr> else a)
             (anomalies ctx)\<rparr>"

definition or_empty :: "'a list option \<Rightarrow> 'a list" where
  "or_empty xs = (case xs of None \<Rightarrow> [] | Some ys \<Rightarrow> ys)"

text \<open>\<open>handleAutoSchedule\<close>. The engine is a parameter; \<open>None\<close> is a call that throws,
  which the handler catches.\<close>

definition handleAutoSchedule ::
    "(anomaly list \<Rightarrow> maintenanceWindow list \<Rightarrow> actionPlan list \<Rightarrow> scheduleResults option)
     \<Rightarrow> real \<Rightarrow> dataContext \<Rightarrow> handlerResult" where
  "handleAutoSchedule engine now ctx =
     (if length (unscheduledTreatedAnomalies ctx) = 0
      then \<lparr>dataAfter = ctx, scheduledToast = None, unassignedToast = None, errorToast = False\<rparr>
      else
        (case engine (unscheduledTreatedAnomalies ctx) (availableWindows now ctx)
                (actionPlans ctx) of
           None \<Rightarrow>
             \<lparr>dataAfter = ctx, scheduledToast = None, unassignedToast = None, errorToast = True\<rparr>
         | Some scheduleResults \<Rightarrow>
             (let existingWindowIds = map window_id (availableWindows now ctx);
                  validAssignments =
                    filter (\<lambda>x. asg_windowId x \<in> set existingWindowIds)
                      (or_empty (assignments scheduleResults));
                  ctx' = foldl (\<lambda>c x. updateAnomaly c (asg_anomalyId x) (Some (asg_windowId x)))
                           ctx validAssignments;
                  assignmentsToNewWindows =
                    filter (\<lambda>x. asg_windowId x \<notin> set existingWindowIds)
                      (or_empty (assignments scheduleResults));
                  unassignedCount =
                    length (or_empty (unassigned scheduleResults))
                    + length (remdups (map asg_anomalyId assignmentsToNewWindows))
              in \<lparr>dataAfter = ctx',
                  scheduledToast =
                    (if length validAssignments > 0 then Some (length validAssignments)
                     else None),
                  unassignedToast =
                    (if unassignedCount > 0 then Some unassignedCount else None),
                  errorToast = False\<rparr>)))"

text \<open>How an anomaly may differ after a run of the handler: not at all, or only in its
  window reference, which is then one of the given identifiers.\<close>

definition retargeted :: "string set \<Rightarrow> anomaly \<Rightarrow> anomaly \<Rightarrow> bool" where
  "retargeted ids a a' = (a' = a \<or> (\<exists>i \<in> ids. a' = a\<lparr>maintenanceWindowId := Some i\<rparr>))"

subsection \<open>The planning engine\<close>

text \<open>
  The engine behind \<open>usePlanningEngineReal\<close> is described by the design document
  only. Its auto-scheduler scores and sorts the candidates as the page does, then
  places each one into the first window whose remaining capacity suffices, and lowers
  that capacity; a candidate that fits nowhere is reported as unassigned. The workload
  a window already carries cannot be computed from the three arguments, so it is the
  parameter \<open>currentAssignedWorkload\<close>.
\<close>

record scheduleState =
  remaining :: "(maintenanceWindow \<times> real) list"
  made :: "assignment list"
  left :: "string list"

fun firstFit ::
    "(maintenanceWindow \<times> real) list \<Rightarrow> real
     \<Rightarrow> ((maintenanceWindow \<times> real) list \<times> string) option" where
  "firstFit [] pt = None"
| "firstFit ((w, r) # rest) pt =
     (if r \<ge> pt then Some ((w, r - pt) # rest, window_id w)
      else (case firstFit rest pt of
              None \<Rightarrow> None
            | Some (rest', i) \<Rightarrow> Some ((w, r) # rest', i)))"

definition placeAnomaly :: "scheduleState \<Rightarrow> scoredAnomaly \<Rightarrow> scheduleState" where
  "placeAnomaly st s =
     (case firstFit (remaining st) (processingTime s) of
        None \<Rightarrow> st\<lparr>left := left st @ [anomaly_id (base s)]\<rparr>
      | Some (rem', i) \<Rightarrow>
          st\<lparr>remaining := rem',
             made := made st @ [\<lparr>asg_anomalyId = anomaly_id (base s), asg_windowId = i\<rparr>]\<rparr>)"

definition initialState ::
    "(maintenanceWindow \<Rightarrow> real) \<Rightarrow> maintenanceWindow list \<Rightarrow> scheduleState" where
  "initialState currentAssignedWorkload ws =
     \<lparr>remaining = map (\<lambda>w. (w, durationDays w - currentAssignedWorkload w)) ws,
      made = [], left = []\<rparr>"

text \<open>Modelled from the spec: \<open>autoScheduleTreatedAnomalies\<close> of the planning engine
  (\<open>hooks/usePlanningEngineReal\<close>), the greedy first-fit of the design document.\<close>

definition autoScheduleTreatedAnomalies ::
    "(maintenanceWindow \<Rightarrow> real) \<Rightarrow> anomaly list \<Rightarrow> maintenanceWindow list
     \<Rightarrow> actionPlan list \<Rightarrow> scheduleResults option" where
  "autoScheduleTreatedAnomalies currentAssignedWorkload candidates ws ps =
     (let final = foldl placeAnomaly (initialState currentAssignedWorkload ws)
                    (sortByEfficiency (map (scoreAnomaly ps) candidates))
      in Some \<lparr>assignments = Some (made final), unassigned = Some (left final)\<rparr>)"
















subsection \<open>Concrete inputs\<close>

text \<open>Concrete anomalies, plans and windows for evaluation.\<close>

definition mkAnomaly :: "string \<Rightarrow> string \<Rightarrow> string option \<Rightarrow> string option \<Rightarrow> anomaly" where
  "mkAnomaly i level eq win =
     \<lparr>anomaly_id = i, status = ''treated'', criticalityLevel = level,
      equipmentId = eq, maintenanceWindowId = win,
      fiabiliteIntegriteScore = None, disponibiliteScore = None, processSafetyScore = None,
      userFiabiliteIntegriteScore = None, userDisponibiliteScore = None,
      userProcessSafetyScore = None\<rparr>"

definition mkPlan :: "string \<Rightarrow> real \<Rightarrow> actionPlan" where
  "mkPlan i d = \<lparr>anomalyId = i, totalDurationDays = d\<rparr>"

definition mkWindow :: "string \<Rightarrow> real \<Rightarrow> maintenanceWindow" where
  "mkWindow i d =
     \<lparr>window_id = i, window_type = ''minor'', durationDays = d, startDate = 100,
      window_status = ''planned'', autoCreated = False\<rparr>"

text \<open>One window of five days and two anomalies of three days each.\<close>

definition twoOnOne :: dataContext where
  "twoOnOne =
     \<lparr>anomalies = [mkAnomaly ''a1'' ''critical'' None None, mkAnomaly ''a2'' ''high'' None None],
      maintenanceWindows = [mkWindow ''w1'' 5],
      actionPlans = [mkPlan ''a1'' 3, mkPlan ''a2'' 3]\<rparr>"






section \<open>Verified properties\<close>

subsection \<open>Auxiliary facts\<close>

lemma utilizationOf_eq [simp]:
  "utilizationOf workload cap = Some (if 0 < cap then workload / cap * 100 else 0)"
  by (simp add: utilizationOf_def js_divide_def)

lemma planDuration_nonzero: "planDuration ps a \<noteq> 0"
  by (cases "findPlan ps a") (simp_all add: planDuration_def)

lemma foldl_add_sum_list:
  "foldl (\<lambda>s x. s + f x) (z::real) xs = z + sum_list (map f xs)"
  by (induction xs arbitrary: z) simp_all




lemma generateRecommendations_cases:
  "generateRecommendations as ws =
     (if \<exists>w \<in> set ws. utilization w > 100
      then [\<lparr>rtype = ''warning'', rcount = length (filter (\<lambda>w. utilization w > 100) ws)\<rparr>]
      else [])
     @ (if \<exists>w \<in> set ws. utilization w < 50 \<and> utilization w > 0
        then [\<lparr>rtype = ''info'',
               rcount = length (filter (\<lambda>w. utilization w < 50 \<and> utilization w > 0) ws)\<rparr>]
        else [])
     @ (if \<exists>a \<in> set as. \<not> truthy (maintenanceWindowId (base a))
                           \<and> criticalityLevel (base a) = ''critical''
        then [\<lparr>rtype = ''error'',
               rcount = length (filter (\<lambda>a. \<not> truthy (maintenanceWindowId (base a))
                                  \<and> criticalityLevel (base a) = ''critical'') as)\<rparr>]
        else [])"
proof -
  have e: "\<And>P xs. (0 < length (filter P xs)) = (\<exists>x \<in> set xs. P x)"
    by (simp add: filter_empty_conv)
  show ?thesis
    unfolding generateRecommendations_def Let_def e ..
qed

lemma updateAnomaly_frame:
  "maintenanceWindows (updateAnomaly c i w) = maintenanceWindows c"
  "actionPlans (updateAnomaly c i w) = actionPlans c"
  by (simp_all add: updateAnomaly_def)

lemma foldl_updateAnomaly_frame:
  "maintenanceWindows (foldl (\<lambda>c x. updateAnomaly c (f x) (g x)) c xs) = maintenanceWindows c
   \<and> actionPlans (foldl (\<lambda>c x. updateAnomaly c (f x) (g x)) c xs) = actionPlans c"
  by (induction xs arbitrary: c) (simp_all add: updateAnomaly_frame)

lemma retargeted_refl: "retargeted ids a a"
  by (simp add: retargeted_def)

lemma retargeted_step:
  "retargeted ids a a' \<Longrightarrow> i \<in> ids \<Longrightarrow> retargeted ids a (a'\<lparr>maintenanceWindowId := Some i\<rparr>)"
  by (auto simp: retargeted_def)

lemma foldl_updateAnomaly_retargeted:
  "list_all2 (retargeted ids) as (anomalies c) \<Longrightarrow> \<forall>x \<in> set xs. g x \<in> ids \<Longrightarrow>
   list_all2 (retargeted ids) as
     (anomalies (foldl (\<lambda>c x. updateAnomaly c (f x) (Some (g x))) c xs))"
proof (induction xs arbitrary: c)
  case Nil
  then show ?case by simp
next
  case (Cons x xs)
  have "list_all2 (retargeted ids) as (anomalies (updateAnomaly c (f x) (Some (g x))))"
    using Cons.prems
    by (auto simp: updateAnomaly_def list_all2_conv_all_nth retargeted_step)
  with Cons show ?case by simp
qed

lemma handleAutoSchedule_frame:
  "maintenanceWindows (dataAfter (handleAutoSchedule engine now ctx)) = maintenanceWindows ctx
   \<and> actionPlans (dataAfter (handleAutoSchedule engine now ctx)) = actionPlans ctx
   \<and> list_all2 (retargeted (window_id ` set (availableWindows now ctx)))
        (anomalies ctx) (anomalies (dataAfter (handleAutoSchedule engine now ctx)))"
proof -
  have r: "list_all2 (retargeted (window_id ` set (availableWindows now ctx)))
        (anomalies ctx) (anomalies ctx)"
    by (simp add: list_all2_conv_all_nth retargeted_refl)
  show ?thesis
    using r
    by (auto simp: handleAutoSchedule_def Let_def foldl_updateAnomaly_frame
        intro!: foldl_updateAnomaly_retargeted split: option.splits)
qed

lemma firstFit_Some:
  "firstFit rem pt = Some (rem', i) \<Longrightarrow>
     map fst rem' = map fst rem \<and> i \<in> window_id ` fst ` set rem"
proof (induction rem pt arbitrary: rem' i rule: firstFit.induct)
  case (1 pt)
  then show ?case by simp
next
  case (2 w r rest pt)
  show ?case
  proof (cases "pt \<le> r")
    case True
    with "2.prems" show ?thesis by auto
  next
    case False
    with "2.prems" obtain rest' where
      f: "firstFit rest pt = Some (rest', i)" and r: "rem' = (w, r) # rest'"
      by (auto split: option.splits)
    from "2.IH" [OF False f] r show ?thesis by auto
  qed
qed

lemma firstFit_None:
  "(firstFit rem pt = None) = (\<forall>(w, r) \<in> set rem. r < pt)"
  by (induction rem pt rule: firstFit.induct) (auto split: option.splits)

lemma placeAnomaly_inv:
  "map fst (remaining (placeAnomaly st s)) = map fst (remaining st)
   \<and> set (map asg_windowId (made (placeAnomaly st s)))
       \<subseteq> set (map asg_windowId (made st)) \<union> window_id ` fst ` set (remaining st)
   \<and> mset (map asg_anomalyId (made (placeAnomaly st s))) + mset (left (placeAnomaly st s))
       = mset (map asg_anomalyId (made st)) + mset (left st) + {#anomaly_id (base s)#}
   \<and> set (left st) \<subseteq> set (left (placeAnomaly st s))"
proof (cases "firstFit (remaining st) (processingTime s)")
  case None
  then show ?thesis by (auto simp: placeAnomaly_def)
next
  case (Some p)
  obtain rem' i where p: "p = (rem', i)" by (cases p)
  from firstFit_Some [of "remaining st" "processingTime s" rem' i] Some p
  have "map fst rem' = map fst (remaining st)" "i \<in> window_id ` fst ` set (remaining st)"
    by simp_all
  with Some p show ?thesis by (auto simp: placeAnomaly_def)
qed

lemma foldl_placeAnomaly_inv:
  "map fst (remaining (foldl placeAnomaly st xs)) = map fst (remaining st)
   \<and> set (map asg_windowId (made (foldl placeAnomaly st xs)))
       \<subseteq> set (map asg_windowId (made st)) \<union> window_id ` fst ` set (remaining st)
   \<and> mset (map asg_anomalyId (made (foldl placeAnomaly st xs)))
         + mset (left (foldl placeAnomaly st xs))
       = mset (map asg_anomalyId (made st)) + mset (left st)
         + mset (map (\<lambda>s. anomaly_id (base s)) xs)
   \<and> set (left st) \<subseteq> set (left (foldl placeAnomaly st xs))"
proof (induction xs arbitrary: st)
  case Nil
  then show ?case by simp
next
  case (Cons x xs)
  note step = placeAnomaly_inv [of st x]
  note rest = Cons.IH [of "placeAnomaly st x"]
  have fs: "fst ` set (remaining (placeAnomaly st x)) = fst ` set (remaining st)"
    using step by (metis set_map)
  have r: "map fst (remaining (foldl placeAnomaly st (x # xs))) = map fst (remaining st)"
    using step rest by simp
  have w1: "set (map asg_windowId (made (foldl placeAnomaly (placeAnomaly st x) xs)))
       \<subseteq> set (map asg_windowId (made (placeAnomaly st x))) \<union> window_id ` fst ` set (remaining st)"
    using rest fs by simp
  have w2: "set (map asg_windowId (made (placeAnomaly st x)))
       \<subseteq> set (map asg_windowId (made st)) \<union> window_id ` fst ` set (remaining st)"
    using step by simp
  have w: "set (map asg_windowId (made (foldl placeAnomaly st (x # xs))))
       \<subseteq> set (map asg_windowId (made st)) \<union> window_id ` fst ` set (remaining st)"
    using w1 w2 by simp blast
  have m: "mset (map asg_anomalyId (made (foldl placeAnomaly st (x # xs))))
         + mset (left (foldl placeAnomaly st (x # xs)))
       = mset (map asg_anomalyId (made st)) + mset (left st)
         + mset (map (\<lambda>s. anomaly_id (base s)) (x # xs))"
    using step rest by simp
  have l1: "set (left st) \<subseteq> set (left (placeAnomaly st x))"
    using step by simp
  have l2: "set (left (placeAnomaly st x)) \<subseteq> set (left (foldl placeAnomaly (placeAnomaly st x) xs))"
    using rest by simp
  have l: "set (left st) \<subseteq> set (left (foldl placeAnomaly st (x # xs)))"
    using l1 l2 by (simp only: foldl_Cons)
  from r w m l show ?case by blast
qed

lemma placeAnomaly_unfit:
  "\<forall>(w, r) \<in> set (remaining st). r < processingTime s \<Longrightarrow>
     anomaly_id (base s) \<in> set (left (placeAnomaly st s))"
  using firstFit_None [of "remaining st" "processingTime s"]
  by (simp add: placeAnomaly_def)

lemma foldl_placeAnomaly_unfit:
  assumes n: "n < length xs"
    and u: "\<forall>(w, r) \<in> set (remaining (foldl placeAnomaly st (take n xs))).
               r < processingTime (xs ! n)"
  shows "anomaly_id (base (xs ! n)) \<in> set (left (foldl placeAnomaly st xs))"
proof -
  let ?st = "foldl placeAnomaly st (take n xs)"
  have xs: "xs = take n xs @ (xs ! n) # drop (Suc n) xs"
    using n by (rule id_take_nth_drop)
  have "foldl placeAnomaly st xs = foldl placeAnomaly (placeAnomaly ?st (xs ! n)) (drop (Suc n) xs)"
    by (subst xs) simp
  moreover have "anomaly_id (base (xs ! n)) \<in> set (left (placeAnomaly ?st (xs ! n)))"
    using u by (rule placeAnomaly_unfit)
  moreover have "set (left (placeAnomaly ?st (xs ! n)))
      \<subseteq> set (left (foldl placeAnomaly (placeAnomaly ?st (xs ! n)) (drop (Suc n) xs)))"
    using foldl_placeAnomaly_inv by blast
  ultimately show ?thesis by auto
qed

lemma sortByEfficiency_ids:
  "mset (map (\<lambda>s. anomaly_id (base s)) (sortByEfficiency (map (scoreAnomaly ps) cs)))
     = mset (map anomaly_id cs)"
proof -
  have "mset (map (\<lambda>s. anomaly_id (base s)) (sortByEfficiency (map (scoreAnomaly ps) cs)))
      = image_mset (\<lambda>s. anomaly_id (base s)) (mset (map (scoreAnomaly ps) cs))"
    by (simp add: sortByEfficiency_def)
  also have "\<dots> = mset (map anomaly_id cs)"
    by (simp add: image_mset.compositionality comp_def scoreAnomaly_def Let_def)
  finally show ?thesis .
qed

lemmas eval_defs =
  twoOnOne_def mkAnomaly_def mkPlan_def mkWindow_def
  autoScheduleTreatedAnomalies_def initialState_def placeAnomaly_def sortByEfficiency_def
  scoreAnomaly_def planDuration_def findPlan_def criticalityWeight_def weightTable_def
  equipmentFactor_def Let_def










subsection \<open>Scoring model\<close>

text \<open>C2: on the code, an anomaly whose level is \<open>normal\<close> gets the default weight 1, not 4: the weight table is keyed by \<open>medium\<close>. The urgency score of such an anomaly is 1 without an equipment identifier and 1.2 with one, the same as for level \<open>low\<close>.\<close>

theorem urgencyScore_normal_level:
  "criticalityWeight ''normal'' = 1
   \<and> criticalityWeight ''medium'' = 4
   \<and> urgencyScore (scoreAnomaly [] (mkAnomaly ''a1'' ''normal'' None None)) = 1
   \<and> urgencyScore (scoreAnomaly [] (mkAnomaly ''a1'' ''normal'' (Some ''eq-7'') None)) = 12 / 10
   \<and> urgencyScore (scoreAnomaly [] (mkAnomaly ''a1'' ''low'' None None)) = 1"
  by (simp add: criticalityWeight_def weightTable_def scoreAnomaly_def equipmentFactor_def
      mkAnomaly_def Let_def)

text \<open>C4 (as stated): a plan whose total duration is 0 exists and the processing time is 1, not the plan's duration; a plan of half a day gives a processing time below 1.\<close>

theorem processingTime_counterexample:
  "findPlan [mkPlan ''a1'' 0, mkPlan ''a2'' (1 / 2)] (mkAnomaly ''a1'' ''high'' None None)
     = Some (mkPlan ''a1'' 0)
   \<and> processingTime (scoreAnomaly [mkPlan ''a1'' 0, mkPlan ''a2'' (1 / 2)]
         (mkAnomaly ''a1'' ''high'' None None)) \<noteq> totalDurationDays (mkPlan ''a1'' 0)
   \<and> \<not> 1 \<le> processingTime (scoreAnomaly [mkPlan ''a1'' 0, mkPlan ''a2'' (1 / 2)]
         (mkAnomaly ''a2'' ''high'' None None))"
  by (simp add: scoreAnomaly_def planDuration_def findPlan_def mkPlan_def mkAnomaly_def Let_def)

text \<open>C4 (amended): efficiency is the urgency score divided by the processing time; the processing time is the plan's total duration when a plan exists and that duration is not zero, and 1 otherwise; it is never zero; and it is at least 1 whenever the plan's duration, if there is a plan, is zero or at least 1.\<close>

theorem efficiency_processingTime:
  "efficiency (scoreAnomaly ps a)
     = urgencyScore (scoreAnomaly ps a) / processingTime (scoreAnomaly ps a)
   \<and> processingTime (scoreAnomaly ps a) \<noteq> 0
   \<and> processingTime (scoreAnomaly ps a)
     = (case findPlan ps a of
          None \<Rightarrow> 1
        | Some p \<Rightarrow> if totalDurationDays p = 0 then 1 else totalDurationDays p)
   \<and> ((\<forall>p. findPlan ps a = Some p \<longrightarrow> totalDurationDays p = 0 \<or> 1 \<le> totalDurationDays p)
        \<longrightarrow> 1 \<le> processingTime (scoreAnomaly ps a))"
  by (cases "findPlan ps a") (simp_all add: scoreAnomaly_def planDuration_def Let_def)

theorem efficiency_processingTime_witness:
  "efficiency (scoreAnomaly [mkPlan ''a1'' 4] (mkAnomaly ''a1'' ''critical'' None None)) = 10 / 4
   \<and> processingTime (scoreAnomaly [mkPlan ''a1'' 4] (mkAnomaly ''a1'' ''critical'' None None)) = 4
   \<and> 1 \<le> processingTime (scoreAnomaly [mkPlan ''a1'' 4] (mkAnomaly ''a1'' ''critical'' None None))"
  using efficiency_processingTime
    [of "[mkPlan ''a1'' 4]" "mkAnomaly ''a1'' ''critical'' None None"]
  by (simp add: findPlan_def mkPlan_def mkAnomaly_def scoreAnomaly_def criticalityWeight_def
      weightTable_def equipmentFactor_def planDuration_def Let_def)

subsection \<open>Criticality level\<close>

text \<open>C3: the criticality level is decided by the sum of the three sub-scores, each 0 when absent: critical from 9, high from 7, normal from 3, low below; the totals 9, 8, 7, 6, 3, 2 and 0 give critical, high, high, normal, normal, low and low.\<close>

theorem calculateCriticalityLevel_thresholds:
  "totalScore a =
     nullish (userFiabiliteIntegriteScore a) (nullish (fiabiliteIntegriteScore a) 0)
     + nullish (userDisponibiliteScore a) (nullish (disponibiliteScore a) 0)
     + nullish (userProcessSafetyScore a) (nullish (processSafetyScore a) 0)
   \<and> (calculateCriticalityLevel a = ''critical'') = (9 \<le> totalScore a)
   \<and> (calculateCriticalityLevel a = ''high'') = (7 \<le> totalScore a \<and> totalScore a < 9)
   \<and> (calculateCriticalityLevel a = ''normal'') = (3 \<le> totalScore a \<and> totalScore a < 7)
   \<and> (calculateCriticalityLevel a = ''low'') = (totalScore a < 3)
   \<and> calculateCriticalityLevel (scored None None None (Some 3) (Some 3) (Some 3)) = ''critical''
   \<and> calculateCriticalityLevel (scored None None None (Some 3) (Some 3) (Some 2)) = ''high''
   \<and> calculateCriticalityLevel (scored None None None (Some 3) (Some 3) (Some 1)) = ''high''
   \<and> calculateCriticalityLevel (scored None None None (Some 3) (Some 3) None) = ''normal''
   \<and> calculateCriticalityLevel (scored None None None (Some 3) None None) = ''normal''
   \<and> calculateCriticalityLevel (scored None None None (Some 2) None None) = ''low''
   \<and> calculateCriticalityLevel (scored None None None None None None) = ''low''"
  by (simp add: calculateCriticalityLevel_def totalScore_def fiabiliteIntegriteScore_of_def
      disponibiliteScore_of_def processSafetyScore_of_def scored_def)

text \<open>C10: each sub-score is the user-provided score whenever that field is present, also when it is 0; otherwise the base score; and 0 only when both are absent. The level is computed from these three values.\<close>

theorem user_score_overrides_base:
  "(userFiabiliteIntegriteScore a = Some u \<longrightarrow> fiabiliteIntegriteScore_of a = u)
   \<and> (userFiabiliteIntegriteScore a = None \<longrightarrow> fiabiliteIntegriteScore a = Some b
        \<longrightarrow> fiabiliteIntegriteScore_of a = b)
   \<and> (userFiabiliteIntegriteScore a = None \<longrightarrow> fiabiliteIntegriteScore a = None
        \<longrightarrow> fiabiliteIntegriteScore_of a = 0)
   \<and> (userDisponibiliteScore a = Some u \<longrightarrow> disponibiliteScore_of a = u)
   \<and> (userDisponibiliteScore a = None \<longrightarrow> disponibiliteScore a = Some b
        \<longrightarrow> disponibiliteScore_of a = b)
   \<and> (userDisponibiliteScore a = None \<longrightarrow> disponibiliteScore a = None
        \<longrightarrow> disponibiliteScore_of a = 0)
   \<and> (userProcessSafetyScore a = Some u \<longrightarrow> processSafetyScore_of a = u)
   \<and> (userProcessSafetyScore a = None \<longrightarrow> processSafetyScore a = Some b
        \<longrightarrow> processSafetyScore_of a = b)
   \<and> (userProcessSafetyScore a = None \<longrightarrow> processSafetyScore a = None
        \<longrightarrow> processSafetyScore_of a = 0)
   \<and> (calculateCriticalityLevel a =
        (if 9 \<le> fiabiliteIntegriteScore_of a + disponibiliteScore_of a + processSafetyScore_of a
         then ''critical''
         else if 7 \<le> fiabiliteIntegriteScore_of a + disponibiliteScore_of a + processSafetyScore_of a
         then ''high''
         else if 3 \<le> fiabiliteIntegriteScore_of a + disponibiliteScore_of a + processSafetyScore_of a
         then ''normal'' else ''low''))"
  by (simp add: calculateCriticalityLevel_def totalScore_def fiabiliteIntegriteScore_of_def
      disponibiliteScore_of_def processSafetyScore_of_def)

theorem user_score_overrides_base_witness:
  "fiabiliteIntegriteScore_of (scored (Some 0) None None (Some 5) (Some 5) None) = 0
   \<and> disponibiliteScore_of (scored (Some 0) None None (Some 5) (Some 5) None) = 5
   \<and> processSafetyScore_of (scored (Some 0) None None (Some 5) (Some 5) None) = 0
   \<and> calculateCriticalityLevel (scored (Some 0) None None (Some 5) (Some 5) None) = ''normal''"
  using user_score_overrides_base
    [of "scored (Some 0) None None (Some 5) (Some 5) None" 0 5]
  by (simp add: scored_def)

subsection \<open>Window utilization analyzer\<close>

text \<open>C5: the total workload of a window is the sum of the plan durations of its assigned
  anomalies; its utilization is workload / durationDays * 100 when durationDays is positive
  and 0 when durationDays is zero or negative; the analyzer's computation of it never
  divides by zero: it yields a number for every workload and every durationDays, whereas
  a division by zero yields none.\<close>

theorem utilization_guarded:
  "totalWorkload (analyzeWindow t ps w)
     = sum_list (map (planDuration ps) (assignedAnomalies (analyzeWindow t ps w)))
   \<and> utilizationOf (totalWorkload (analyzeWindow t ps w)) (durationDays w)
     = Some (utilization (analyzeWindow t ps w))
   \<and> utilizationOf x c \<noteq> None
   \<and> (js_divide x c = None) = (c = 0)
   \<and> (0 < durationDays w \<longrightarrow>
        js_divide (totalWorkload (analyzeWindow t ps w)) (durationDays w)
          = Some (totalWorkload (analyzeWindow t ps w) / durationDays w)
        \<and> utilization (analyzeWindow t ps w)
          = totalWorkload (analyzeWindow t ps w) / durationDays w * 100)
   \<and> (durationDays w \<le> 0 \<longrightarrow> utilization (analyzeWindow t ps w) = 0)"
  by (simp add: analyzeWindow_def Let_def foldl_add_sum_list js_divide_def)

theorem utilization_guarded_witness:
  "utilization (analyzeWindow [mkAnomaly ''a1'' ''high'' None (Some ''w1'')] [mkPlan ''a1'' 4]
      (mkWindow ''w1'' 8)) = 50
   \<and> utilizationOf 4 8 = Some 50
   \<and> utilization (analyzeWindow [mkAnomaly ''a1'' ''high'' None (Some ''w1'')] [mkPlan ''a1'' 4]
      (mkWindow ''w1'' 0)) = 0
   \<and> utilizationOf 4 0 = Some 0
   \<and> js_divide 4 0 = None
   \<and> utilization (analyzeWindow [mkAnomaly ''a1'' ''high'' None (Some ''w1'')] [mkPlan ''a1'' 4]
      (mkWindow ''w1'' (- 2))) = 0
   \<and> utilizationOf 4 (- 2) = Some 0"
proof -
  have w: "totalWorkload (analyzeWindow [mkAnomaly ''a1'' ''high'' None (Some ''w1'')]
      [mkPlan ''a1'' 4] (mkWindow ''w1'' d)) = 4"
    "durationDays (mkWindow ''w1'' d) = d" for d
    by (simp_all add: analyzeWindow_def mkAnomaly_def mkPlan_def mkWindow_def planDuration_def
        findPlan_def Let_def)
  show ?thesis
    using
      utilization_guarded [of "[mkAnomaly ''a1'' ''high'' None (Some ''w1'')]"
        "[mkPlan ''a1'' 4]" "mkWindow ''w1'' 8" 4 0]
      utilization_guarded [of "[mkAnomaly ''a1'' ''high'' None (Some ''w1'')]"
        "[mkPlan ''a1'' 4]" "mkWindow ''w1'' 0" 4 0]
      utilization_guarded [of "[mkAnomaly ''a1'' ''high'' None (Some ''w1'')]"
        "[mkPlan ''a1'' 4]" "mkWindow ''w1'' (- 2)" 4 0]
    unfolding w by simp
qed



subsection \<open>Recommendations\<close>

text \<open>C7: a warning is emitted exactly when some window has utilization above 100, and it carries the number of such windows; an info exactly when some window has utilization strictly between 0 and 50; an error exactly when some anomaly is critical and has no window reference. Nothing else is emitted.\<close>

theorem recommendations_iff:
  "((\<exists>r \<in> set (generateRecommendations as ws). rtype r = ''warning'')
       = (\<exists>w \<in> set ws. utilization w > 100))
   \<and> (\<forall>r \<in> set (generateRecommendations as ws). rtype r = ''warning'' \<longrightarrow>
         rcount r = length (filter (\<lambda>w. utilization w > 100) ws))
   \<and> ((\<exists>r \<in> set (generateRecommendations as ws). rtype r = ''info'')
       = (\<exists>w \<in> set ws. 0 < utilization w \<and> utilization w < 50))
   \<and> ((\<exists>r \<in> set (generateRecommendations as ws). rtype r = ''error'')
       = (\<exists>a \<in> set as. criticalityLevel (base a) = ''critical''
                         \<and> \<not> truthy (maintenanceWindowId (base a))))
   \<and> (\<forall>r \<in> set (generateRecommendations as ws).
         rtype r = ''warning'' \<or> rtype r = ''info'' \<or> rtype r = ''error'')"
proof -
  let ?O = "\<exists>w \<in> set ws. utilization w > 100"
  let ?U = "\<exists>w \<in> set ws. utilization w < 50 \<and> utilization w > 0"
  let ?C = "\<exists>a \<in> set as. \<not> truthy (maintenanceWindowId (base a))
                           \<and> criticalityLevel (base a) = ''critical''"
  note s = generateRecommendations_cases [of as ws]
  have 1: "(\<exists>r \<in> set (generateRecommendations as ws). rtype r = ''warning'') = ?O"
    by (cases ?O; cases ?U; cases ?C) (simp_all only: s, simp_all)
  have 2: "\<forall>r \<in> set (generateRecommendations as ws). rtype r = ''warning'' \<longrightarrow>
         rcount r = length (filter (\<lambda>w. utilization w > 100) ws)"
    by (cases ?O; cases ?U; cases ?C) (simp_all only: s, simp_all)
  have 3: "(\<exists>r \<in> set (generateRecommendations as ws). rtype r = ''info'') = ?U"
    by (cases ?O; cases ?U; cases ?C) (simp_all only: s, simp_all)
  have 4: "(\<exists>r \<in> set (generateRecommendations as ws). rtype r = ''error'') = ?C"
    by (cases ?O; cases ?U; cases ?C) (simp_all only: s, simp_all)
  have 5: "\<forall>r \<in> set (generateRecommendations as ws).
         rtype r = ''warning'' \<or> rtype r = ''info'' \<or> rtype r = ''error''"
    by (cases ?O; cases ?U; cases ?C) (simp_all only: s, simp_all)
  have U: "?U = (\<exists>w \<in> set ws. 0 < utilization w \<and> utilization w < 50)" by auto
  have C: "?C = (\<exists>a \<in> set as. criticalityLevel (base a) = ''critical''
                         \<and> \<not> truthy (maintenanceWindowId (base a)))" by auto
  from 1 2 3 4 5 U C show ?thesis by simp
qed

theorem recommendations_iff_witness:
  "map rtype (generateRecommendations
      [scoreAnomaly [] (mkAnomaly ''a2'' ''critical'' None None)]
      [analyzeWindow [mkAnomaly ''a1'' ''high'' None (Some ''w1'')] [mkPlan ''a1'' 17]
         (mkWindow ''w1'' 10)]) = [''warning'', ''error'']
   \<and> map rcount (generateRecommendations
      [scoreAnomaly [] (mkAnomaly ''a2'' ''critical'' None None)]
      [analyzeWindow [mkAnomaly ''a1'' ''high'' None (Some ''w1'')] [mkPlan ''a1'' 17]
         (mkWindow ''w1'' 10)]) = [1, 1]"
proof -
  let ?as = "[scoreAnomaly [] (mkAnomaly ''a2'' ''critical'' None None)]"
  let ?w = "analyzeWindow [mkAnomaly ''a1'' ''high'' None (Some ''w1'')] [mkPlan ''a1'' 17]
         (mkWindow ''w1'' 10)"
  have u: "utilization ?w = 170"
    by (simp add: analyzeWindow_def mkAnomaly_def mkPlan_def mkWindow_def planDuration_def
        findPlan_def Let_def)
  have c: "criticalityLevel (base (scoreAnomaly [] (mkAnomaly ''a2'' ''critical'' None None)))
             = ''critical''
           \<and> maintenanceWindowId (base (scoreAnomaly [] (mkAnomaly ''a2'' ''critical'' None None)))
             = None"
    by (simp add: scoreAnomaly_def mkAnomaly_def Let_def)
  show ?thesis
    using recommendations_iff [of ?as "[?w]"] u c
    by (simp add: generateRecommendations_def Let_def)
qed

subsection \<open>Prioritization\<close>

text \<open>C8: the scored anomalies come out in descending order of efficiency, as a rearrangement of the input, and anomalies of equal efficiency keep their input order; the ordering is a function of the inputs.\<close>

theorem sortedAnomalies_stable:
  "sorted_wrt (\<lambda>x y. efficiency x \<ge> efficiency y)
     (sortedAnomalies (calculateOptimalScheduling t ws ps))
   \<and> mset (sortedAnomalies (calculateOptimalScheduling t ws ps)) = mset (map (scoreAnomaly ps) t)
   \<and> (\<forall>k. filter (\<lambda>s. efficiency s = k) (sortedAnomalies (calculateOptimalScheduling t ws ps))
          = filter (\<lambda>s. efficiency s = k) (map (scoreAnomaly ps) t))
   \<and> map (\<lambda>s. anomaly_id (base s))
       (sortedAnomalies (calculateOptimalScheduling
          [mkAnomaly ''a1'' ''high'' None None, mkAnomaly ''a2'' ''critical'' None None,
           mkAnomaly ''a3'' ''high'' None None, mkAnomaly ''a4'' ''critical'' None None] [] []))
       = [''a2'', ''a4'', ''a1'', ''a3'']"
proof -
  let ?xs = "map (scoreAnomaly ps) t"
  have s: "sortedAnomalies (calculateOptimalScheduling t ws ps) = sort_key (\<lambda>s. - efficiency s) ?xs"
    by (simp add: calculateOptimalScheduling_def sortByEfficiency_def Let_def)
  have "sorted (map (\<lambda>s. - efficiency s) (sort_key (\<lambda>s. - efficiency s) ?xs))"
    by (rule sorted_sort_key)
  then have 1: "sorted_wrt (\<lambda>x y. efficiency x \<ge> efficiency y) (sort_key (\<lambda>s. - efficiency s) ?xs)"
    by (simp add: sorted_map sorted_wrt_iff_nth_less)
  have 2: "mset (sort_key (\<lambda>s. - efficiency s) ?xs) = mset ?xs"
    by simp
  have 3: "\<forall>k. filter (\<lambda>s. efficiency s = k) (sort_key (\<lambda>s. - efficiency s) ?xs)
          = filter (\<lambda>s. efficiency s = k) ?xs"
  proof
    fix k
    have "filter (\<lambda>s. - efficiency s = - k) (sort_key (\<lambda>s. - efficiency s) ?xs)
          = filter (\<lambda>s. - efficiency s = - k) ?xs"
      by (rule sort_key_stable)
    then show "filter (\<lambda>s. efficiency s = k) (sort_key (\<lambda>s. - efficiency s) ?xs)
          = filter (\<lambda>s. efficiency s = k) ?xs"
      by simp
  qed
  have 4: "map (\<lambda>s. anomaly_id (base s))
       (sortedAnomalies (calculateOptimalScheduling
          [mkAnomaly ''a1'' ''high'' None None, mkAnomaly ''a2'' ''critical'' None None,
           mkAnomaly ''a3'' ''high'' None None, mkAnomaly ''a4'' ''critical'' None None] [] []))
       = [''a2'', ''a4'', ''a1'', ''a3'']"
    by (simp add: calculateOptimalScheduling_def sortByEfficiency_def scoreAnomaly_def
        mkAnomaly_def planDuration_def findPlan_def criticalityWeight_def weightTable_def
        equipmentFactor_def Let_def)
  from 1 2 3 4 show ?thesis unfolding s by simp
qed

subsection \<open>Automatic scheduling\<close>

text \<open>C1: a run of the scheduling handler leaves the list of maintenance windows as it was, whatever the engine answers, and changes an anomaly at most in its window reference, which is then an available window; the auto-scheduler only assigns to the windows it was given, reports every candidate exactly once, as assigned or as unassigned, and reports as unassigned every candidate for which, when its turn comes, no given window has enough remaining capacity.\<close>

theorem autoSchedule_keeps_windows:
  "maintenanceWindows (dataAfter (handleAutoSchedule engine now ctx)) = maintenanceWindows ctx
   \<and> list_all2 (retargeted (window_id ` set (availableWindows now ctx)))
        (anomalies ctx) (anomalies (dataAfter (handleAutoSchedule engine now ctx)))
   \<and> (\<exists>asgs unas.
        autoScheduleTreatedAnomalies cw cs ws ps
          = Some \<lparr>assignments = Some asgs, unassigned = Some unas\<rparr>
        \<and> (\<forall>x \<in> set asgs. asg_windowId x \<in> window_id ` set ws)
        \<and> mset (map asg_anomalyId asgs) + mset unas = mset (map anomaly_id cs)
        \<and> (\<forall>n < length cs.
              (\<forall>(w, r) \<in> set (remaining (foldl placeAnomaly (initialState cw ws)
                    (take n (sortByEfficiency (map (scoreAnomaly ps) cs))))).
                  r < processingTime (sortByEfficiency (map (scoreAnomaly ps) cs) ! n))
              \<longrightarrow> anomaly_id (base (sortByEfficiency (map (scoreAnomaly ps) cs) ! n))
                    \<in> set unas))"
proof -
  let ?sorted = "sortByEfficiency (map (scoreAnomaly ps) cs)"
  let ?init = "initialState cw ws"
  let ?final = "foldl placeAnomaly ?init ?sorted"
  have len: "length ?sorted = length cs"
    by (simp add: sortByEfficiency_def)
  have res: "autoScheduleTreatedAnomalies cw cs ws ps
          = Some \<lparr>assignments = Some (made ?final), unassigned = Some (left ?final)\<rparr>"
    by (simp add: autoScheduleTreatedAnomalies_def Let_def)
  note inv = foldl_placeAnomaly_inv [of ?init ?sorted]
  have init: "made ?init = []" "left ?init = []" "fst ` set (remaining ?init) = set ws"
    by (auto simp: initialState_def image_iff)
  have a: "\<forall>x \<in> set (made ?final). asg_windowId x \<in> window_id ` set ws"
    using inv init by auto
  have b: "mset (map asg_anomalyId (made ?final)) + mset (left ?final) = mset (map anomaly_id cs)"
    using inv init sortByEfficiency_ids [of ps cs] by simp
  have c: "\<forall>n < length cs.
              (\<forall>(w, r) \<in> set (remaining (foldl placeAnomaly ?init (take n ?sorted))).
                  r < processingTime (?sorted ! n))
              \<longrightarrow> anomaly_id (base (?sorted ! n)) \<in> set (left ?final)"
    using foldl_placeAnomaly_unfit [of _ ?sorted ?init] len by simp
  from handleAutoSchedule_frame [of engine now ctx] res a b c show ?thesis
    by blast
qed

theorem autoSchedule_keeps_windows_witness:
  "maintenanceWindows (dataAfter (handleAutoSchedule (autoScheduleTreatedAnomalies (\<lambda>w. 0)) 0
      twoOnOne)) = [mkWindow ''w1'' 5]
   \<and> map maintenanceWindowId (anomalies (dataAfter
        (handleAutoSchedule (autoScheduleTreatedAnomalies (\<lambda>w. 0)) 0 twoOnOne)))
       = [Some ''w1'', None]
   \<and> autoScheduleTreatedAnomalies (\<lambda>w. 0) (anomalies twoOnOne) (maintenanceWindows twoOnOne)
        (actionPlans twoOnOne)
       = Some \<lparr>assignments = Some [\<lparr>asg_anomalyId = ''a1'', asg_windowId = ''w1''\<rparr>],
               unassigned = Some [''a2'']\<rparr>
   \<and> map snd (remaining (foldl placeAnomaly (initialState (\<lambda>w. 0) (maintenanceWindows twoOnOne))
        (take 1 (sortByEfficiency (map (scoreAnomaly (actionPlans twoOnOne))
           (anomalies twoOnOne)))))) = [2]
   \<and> processingTime (sortByEfficiency (map (scoreAnomaly (actionPlans twoOnOne))
           (anomalies twoOnOne)) ! 1) = 3"
proof -
  have e: "autoScheduleTreatedAnomalies (\<lambda>w. 0) (anomalies twoOnOne)
        (maintenanceWindows twoOnOne) (actionPlans twoOnOne)
       = Some \<lparr>assignments = Some [\<lparr>asg_anomalyId = ''a1'', asg_windowId = ''w1''\<rparr>],
               unassigned = Some [''a2'']\<rparr>"
    by (simp add: eval_defs)
  have h: "map maintenanceWindowId (anomalies (dataAfter
        (handleAutoSchedule (autoScheduleTreatedAnomalies (\<lambda>w. 0)) 0 twoOnOne)))
       = [Some ''w1'', None]"
    by (simp add: handleAutoSchedule_def unscheduledTreatedAnomalies_def treatedAnomalies_def
        availableWindows_def updateAnomaly_def or_empty_def eval_defs)
  have r: "map snd (remaining (foldl placeAnomaly (initialState (\<lambda>w. 0) (maintenanceWindows twoOnOne))
        (take 1 (sortByEfficiency (map (scoreAnomaly (actionPlans twoOnOne))
           (anomalies twoOnOne)))))) = [2]
     \<and> processingTime (sortByEfficiency (map (scoreAnomaly (actionPlans twoOnOne))
           (anomalies twoOnOne)) ! 1) = 3"
    by (simp add: eval_defs)
  show ?thesis
    using e h r
      autoSchedule_keeps_windows [of "autoScheduleTreatedAnomalies (\<lambda>w. 0)" 0 twoOnOne
        "\<lambda>w. 0" "anomalies twoOnOne" "maintenanceWindows twoOnOne" "actionPlans twoOnOne"]
    by (simp add: twoOnOne_def)
qed

subsection \<open>Scheduling optimizer\<close>



end
